theory Spec2Isabelle
  imports Complex_Main "HOL-Library.Product_Lexorder" "HOL-Library.List_Lexorder"
    "HOL-Library.Char_ord"
begin

section \<open>Tables\<close>

text \<open>
  The helpers of \<^verbatim>\<open>src/utils\<close> work on pandas data frames. A frame is modelled
  row-wise: the column names, the dtype of each column, and the rows in order, each with
  its index label and one cell per column. A cell is a number, a string, or missing
  (NaN / None). Numbers are
  real numbers: the arithmetic of the helpers is modelled exactly, without the rounding
  of binary floating point. A Python float that may be NaN is a \<open>real option\<close>, with
  \<open>None\<close> for NaN.
\<close>

datatype cell = Num real | Str string | NaN

datatype error = KeyError | TypeError | ValueError | SyntaxError

text \<open>The dtype of a column, as far as the helpers look at it: \<^verbatim>\<open>object\<close> or not.\<close>

datatype dtype = Float64 | Object

type_synonym pyfloat = "real option"

type_synonym row = "cell list"

record frame =
  columns :: "string list"
  dtypes :: "dtype list"
  entries :: "(int \<times> row) list"

text \<open>Position of a column name among the columns; \<open>None\<close> when it is absent.\<close>

fun col_pos :: "string list \<Rightarrow> string \<Rightarrow> nat option" where
  "col_pos [] c = None"
| "col_pos (x # xs) c = (if x = c then Some 0 else map_option Suc (col_pos xs c))"

text \<open>The cell of a row at a position; a row too short for the position has it missing.\<close>

definition cell_at :: "row \<Rightarrow> nat \<Rightarrow> cell" where
  "cell_at r j = (if j < length r then r ! j else NaN)"

text \<open>\<^verbatim>\<open>data[column]\<close>: the cells of a column in row order, or \<^verbatim>\<open>KeyError\<close>.\<close>

definition getitem :: "frame \<Rightarrow> string \<Rightarrow> error + cell list" where
  "getitem d c =
     (case col_pos (columns d) c of
        None \<Rightarrow> Inl KeyError
      | Some j \<Rightarrow> Inr (map (\<lambda>e. cell_at (snd e) j) (entries d)))"

fun is_Str :: "cell \<Rightarrow> bool" where
  "is_Str (Str s) = True"
| "is_Str c = False"

text \<open>The numbers of a column, missing cells dropped (\<^verbatim>\<open>dropna\<close> on a numeric column).\<close>

fun nums :: "cell list \<Rightarrow> real list" where
  "nums [] = []"
| "nums (Num v # cs) = v # nums cs"
| "nums (c # cs) = nums cs"

section \<open>Float arithmetic with NaN\<close>

definition fsub :: "pyfloat \<Rightarrow> pyfloat \<Rightarrow> pyfloat" where
  "fsub a b = (case a of None \<Rightarrow> None | Some x \<Rightarrow> (case b of None \<Rightarrow> None | Some y \<Rightarrow> Some (x - y)))"

definition fadd :: "pyfloat \<Rightarrow> pyfloat \<Rightarrow> pyfloat" where
  "fadd a b = (case a of None \<Rightarrow> None | Some x \<Rightarrow> (case b of None \<Rightarrow> None | Some y \<Rightarrow> Some (x + y)))"

definition fmul :: "pyfloat \<Rightarrow> pyfloat \<Rightarrow> pyfloat" where
  "fmul a b = (case a of None \<Rightarrow> None | Some x \<Rightarrow> (case b of None \<Rightarrow> None | Some y \<Rightarrow> Some (x * y)))"

text \<open>\<^verbatim>\<open>a >= b\<close> and \<^verbatim>\<open>a <= b\<close> on floats: false as soon as one side is NaN.\<close>

definition fge :: "pyfloat \<Rightarrow> pyfloat \<Rightarrow> bool" where
  "fge a b = (case a of None \<Rightarrow> False | Some x \<Rightarrow> (case b of None \<Rightarrow> False | Some y \<Rightarrow> y \<le> x))"

definition fle :: "pyfloat \<Rightarrow> pyfloat \<Rightarrow> bool" where
  "fle a b = (case a of None \<Rightarrow> False | Some x \<Rightarrow> (case b of None \<Rightarrow> False | Some y \<Rightarrow> x \<le> y))"

section \<open>Quantiles\<close>

text \<open>
  \<^verbatim>\<open>Series.quantile(q)\<close> with the default linear interpolation: missing values are
  skipped, the rest is sorted, and the value at the fractional position
  \<open>(n - 1) * q\<close> is interpolated between its two neighbours. An empty series gives
  NaN; a series holding strings has no quantile (\<^verbatim>\<open>TypeError\<close>).
\<close>

definition quantile :: "cell list \<Rightarrow> real \<Rightarrow> error + pyfloat" where
  "quantile cs q =
     (if list_ex is_Str cs then Inl TypeError
      else
        let xs = sort (nums cs); n = length xs in
        if n = 0 then Inr None
        else
          let h = real (n - 1) * q; i = nat \<lfloor>h\<rfloor>; g = h - real i in
          Inr (Some (if i + 1 < n then xs ! i + g * (xs ! (i + 1) - xs ! i) else xs ! i)))"

section \<open>Outlier removal\<close>

text \<open>
  The row test of both helpers, \<^verbatim>\<open>column >= lower and column <= upper\<close>: a
  missing cell, or a NaN bound, fails it.
\<close>

fun cell_float :: "cell \<Rightarrow> pyfloat" where
  "cell_float (Num v) = Some v"
| "cell_float c = None"

definition in_bounds :: "pyfloat \<Rightarrow> pyfloat \<Rightarrow> cell \<Rightarrow> bool" where
  "in_bounds lower upper c = (fge (cell_float c) lower \<and> fle (cell_float c) upper)"

text \<open>
  The rows of a frame that pass the test on a column, with their labels unchanged: the
  boolean mask \<^verbatim>\<open>group[(group[column] >= lower) & (group[column] <= upper)]\<close> of
  \<^verbatim>\<open>drop_outliers_grouped\<close>, and the query of \<^verbatim>\<open>drop_outliers\<close> when its
  expression denotes the column.
\<close>

definition keep_between :: "frame \<Rightarrow> string \<Rightarrow> pyfloat \<Rightarrow> pyfloat \<Rightarrow> error + frame" where
  "keep_between d c lower upper =
     (case col_pos (columns d) c of
        None \<Rightarrow> Inl KeyError
      | Some j \<Rightarrow>
          Inr (d\<lparr>entries := filter (\<lambda>e. in_bounds lower upper (cell_at (snd e) j)) (entries d)\<rparr>))"

subsection \<open>The query expression\<close>

text \<open>
  \<^verbatim>\<open>drop_outliers\<close> writes the column name into the text of a query,
  \<^verbatim>\<open>f"{column} >= @lower_bound and {column} <= @upper_bound"\<close>, which pandas parses
  as a Python expression. Three cases are told apart:
  \<^item> the name is a plain identifier (ASCII letters, digits and underscores, not starting
    with a digit, not a Python keyword): the expression denotes the column, and the query
    keeps the rows that pass the test;
  \<^item> the name is two or more such identifiers separated by single spaces, as in
    \<^verbatim>\<open>my col\<close>: the text is not an expression, and the query raises
    \<^verbatim>\<open>SyntaxError\<close>;
  \<^item> any other name (operators, dots, keywords, backticks, letters outside ASCII): what
    pandas makes of the expression is not modelled; it is the parameter \<open>other\<close>.
\<close>

definition ident_start :: "char \<Rightarrow> bool" where
  "ident_start c = (c \<in> set ''abcdefghijklmnopqrstuvwxyzABCDEFGHIJKLMNOPQRSTUVWXYZ_'')"

definition ident_char :: "char \<Rightarrow> bool" where
  "ident_char c = (ident_start c \<or> c \<in> set ''0123456789'')"

definition py_keywords :: "string list" where
  "py_keywords =
     [''False'', ''None'', ''True'', ''and'', ''as'', ''assert'', ''async'', ''await'',
      ''break'', ''class'', ''continue'', ''def'', ''del'', ''elif'', ''else'', ''except'',
      ''finally'', ''for'', ''from'', ''global'', ''if'', ''import'', ''in'', ''is'',
      ''lambda'', ''nonlocal'', ''not'', ''or'', ''pass'', ''raise'', ''return'', ''try'',
      ''while'', ''with'', ''yield'']"

definition plain_name :: "string \<Rightarrow> bool" where
  "plain_name s =
     (case s of
        [] \<Rightarrow> False
      | c # cs \<Rightarrow> ident_start c \<and> list_all ident_char cs \<and> s \<notin> set py_keywords)"

text \<open>The pieces of a name between its spaces.\<close>

fun split_spaces :: "string \<Rightarrow> string list" where
  "split_spaces [] = [[]]"
| "split_spaces (c # cs) =
     (if c = CHR '' '' then [] # split_spaces cs
      else (case split_spaces cs of [] \<Rightarrow> [[c]] | w # ws \<Rightarrow> (c # w) # ws))"

definition juxtaposed_names :: "string \<Rightarrow> bool" where
  "juxtaposed_names s = (2 \<le> length (split_spaces s) \<and> list_all plain_name (split_spaces s))"

type_synonym query_eval = "frame \<Rightarrow> string \<Rightarrow> pyfloat \<Rightarrow> pyfloat \<Rightarrow> error + frame"

definition query_between :: "query_eval \<Rightarrow> frame \<Rightarrow> string \<Rightarrow> pyfloat \<Rightarrow> pyfloat \<Rightarrow> error + frame" where
  "query_between other d c lower upper =
     (if plain_name c then keep_between d c lower upper
      else if juxtaposed_names c then Inl SyntaxError
      else other d c lower upper)"

text \<open>
  \<^verbatim>\<open>drop_outliers(data, column, k, inplace)\<close>. The result is the caller's frame after
  the call together with the returned value (\<open>None\<close> for Python's \<^verbatim>\<open>None\<close>).
\<close>

definition drop_outliers ::
    "query_eval \<Rightarrow> frame \<Rightarrow> string \<Rightarrow> real \<Rightarrow> bool \<Rightarrow> error + (frame \<times> frame option)" where
  "drop_outliers other data column k inplace =
     (case getitem data column of
        Inl e \<Rightarrow> Inl e
      | Inr cs \<Rightarrow>
        (case quantile cs (1 / 4) of
           Inl e \<Rightarrow> Inl e
         | Inr Q1 \<Rightarrow>
           (case quantile cs (3 / 4) of
              Inl e \<Rightarrow> Inl e
            | Inr Q3 \<Rightarrow>
                let IQR = fsub Q3 Q1;
                    lower_bound = fsub Q1 (fmul (Some k) IQR);
                    upper_bound = fadd Q3 (fmul (Some k) IQR)
                in (case query_between other data column lower_bound upper_bound of
                      Inl e \<Rightarrow> Inl e
                    | Inr kept \<Rightarrow> if inplace then Inr (kept, None) else Inr (data, Some kept)))))"

subsection \<open>Grouped outlier removal\<close>

text \<open>
  \<^verbatim>\<open>data.groupby(group_col)\<close>: one group per distinct key of the grouping column, in
  sorted key order (numbers before strings), rows with a missing key left out; each group
  is the sub-frame of its rows, in their original order and with their original labels.
\<close>

fun cell_rank :: "cell \<Rightarrow> nat \<times> real \<times> string" where
  "cell_rank (Num v) = (0, v, [])"
| "cell_rank (Str s) = (1, 0, s)"
| "cell_rank NaN = (2, 0, [])"

definition group_keys :: "cell list \<Rightarrow> cell list" where
  "group_keys cs = sort_key cell_rank (remdups (filter (\<lambda>c. c \<noteq> NaN) cs))"

definition groupby :: "frame \<Rightarrow> string \<Rightarrow> error + (cell \<times> frame) list" where
  "groupby d g =
     (case col_pos (columns d) g of
        None \<Rightarrow> Inl KeyError
      | Some j \<Rightarrow>
          Inr (map (\<lambda>key. (key, d\<lparr>entries := filter (\<lambda>e. cell_at (snd e) j = key) (entries d)\<rparr>))
                 (group_keys (map (\<lambda>e. cell_at (snd e) j) (entries d)))))"

text \<open>The loop over the groups, appending each cleaned group to \<^verbatim>\<open>cleaned\<close>.\<close>

fun clean_groups :: "string \<Rightarrow> real \<Rightarrow> (cell \<times> frame) list \<Rightarrow> frame list \<Rightarrow> error + frame list" where
  "clean_groups column k [] cleaned = Inr cleaned"
| "clean_groups column k ((name, grp) # rest) cleaned =
     (case getitem grp column of
        Inl e \<Rightarrow> Inl e
      | Inr cs \<Rightarrow>
        (case quantile cs (1 / 4) of
           Inl e \<Rightarrow> Inl e
         | Inr Q1 \<Rightarrow>
           (case quantile cs (3 / 4) of
              Inl e \<Rightarrow> Inl e
            | Inr Q3 \<Rightarrow>
                let IQR = fsub Q3 Q1;
                    lower = fsub Q1 (fmul (Some k) IQR);
                    upper = fadd Q3 (fmul (Some k) IQR)
                in (case keep_between grp column lower upper of
                      Inl e \<Rightarrow> Inl e
                    | Inr group_clean \<Rightarrow> clean_groups column k rest (cleaned @ [group_clean])))))"

text \<open>\<^verbatim>\<open>pd.concat(frames)\<close>: the rows of the frames one after the other; no frame at
  all is a \<^verbatim>\<open>ValueError\<close> ("No objects to concatenate").\<close>

definition concat_frames :: "frame list \<Rightarrow> error + frame" where
  "concat_frames fs =
     (case fs of
        [] \<Rightarrow> Inl ValueError
      | f # rest \<Rightarrow> Inr (f\<lparr>entries := concat (map entries fs)\<rparr>))"

text \<open>\<^verbatim>\<open>reset_index(drop=True)\<close>: the rows keep their order and are relabelled
  \<open>0, 1, 2, ...\<close>.\<close>

definition reset_index :: "frame \<Rightarrow> frame" where
  "reset_index d = d\<lparr>entries := zip (map int [0..<length (entries d)]) (map snd (entries d))\<rparr>"

text \<open>
  \<^verbatim>\<open>data.loc[:] = value\<close> with a frame on the right: pandas aligns the value on the
  labels of \<^verbatim>\<open>data\<close>. The frame keeps its labels and its number of rows; the row at a
  label becomes the row of \<^verbatim>\<open>value\<close> with that label, and a row whose label
  \<^verbatim>\<open>value\<close> does not have becomes all missing. (The value has the columns of
  \<^verbatim>\<open>data\<close> here, and its labels are distinct.)
\<close>

definition loc_setall :: "frame \<Rightarrow> frame \<Rightarrow> frame" where
  "loc_setall data val =
     data\<lparr>entries :=
       map (\<lambda>e. (fst e, case map_of (entries val) (fst e) of
                          None \<Rightarrow> replicate (length (columns data)) NaN
                        | Some r \<Rightarrow> r))
           (entries data)\<rparr>"

text \<open>The frame \<^verbatim>\<open>result\<close> of \<^verbatim>\<open>drop_outliers_grouped\<close>: the cleaned groups
  concatenated and relabelled. It is computed before the mode is looked at.\<close>

definition grouped_result :: "frame \<Rightarrow> string \<Rightarrow> string \<Rightarrow> real \<Rightarrow> error + frame" where
  "grouped_result data column group_col k =
     (case groupby data group_col of
        Inl e \<Rightarrow> Inl e
      | Inr groups \<Rightarrow>
        (case clean_groups column k groups [] of
           Inl e \<Rightarrow> Inl e
         | Inr cleaned \<Rightarrow>
           (case concat_frames cleaned of
              Inl e \<Rightarrow> Inl e
            | Inr c \<Rightarrow> Inr (reset_index c))))"

text \<open>\<^verbatim>\<open>drop_outliers_grouped(data, column, group_col, k, inplace)\<close>: the caller's
  frame after the call, and the returned value.\<close>

definition drop_outliers_grouped ::
    "frame \<Rightarrow> string \<Rightarrow> string \<Rightarrow> real \<Rightarrow> bool \<Rightarrow> error + (frame \<times> frame option)" where
  "drop_outliers_grouped data column group_col k inplace =
     (case grouped_result data column group_col k of
        Inl e \<Rightarrow> Inl e
      | Inr result \<Rightarrow>
          if inplace then Inr (loc_setall data result, None)
          else Inr (data, Some result))"

section \<open>Normality check\<close>

text \<open>
  The statistical routines of scipy are not part of the repository: they are parameters
  of the model. \<^verbatim>\<open>shapiro(x)\<close> takes the values and either raises or returns the
  statistic and the p-value.
\<close>

type_synonym test_routine = "cell list \<Rightarrow> error + (pyfloat \<times> pyfloat)"

text \<open>
  What scipy's \<^verbatim>\<open>shapiro\<close> does with a sample too small for the test: on fewer than
  three values it does not raise, it warns and returns NaN for the statistic and for the
  p-value. On three values or more the computation is the parameter \<open>core\<close>.
\<close>

definition scipy_shapiro :: "test_routine \<Rightarrow> test_routine" where
  "scipy_shapiro core cs = (if length cs < 3 then Inr (None, None) else core cs)"

text \<open>\<^verbatim>\<open>round(x, 4)\<close>: to the nearest multiple of \<open>1/10000\<close>, ties to the even one;
  NaN stays NaN.\<close>

definition rint :: "real \<Rightarrow> int" where
  "rint x =
     (let f = \<lfloor>x\<rfloor>; d = x - of_int f
      in if d < 1 / 2 then f else if 1 / 2 < d then f + 1 else if even f then f else f + 1)"

definition round4 :: "pyfloat \<Rightarrow> pyfloat" where
  "round4 p = map_option (\<lambda>x. of_int (rint (x * 10000)) / 10000) p"

definition dropna :: "cell list \<Rightarrow> cell list" where
  "dropna cs = filter (\<lambda>c. c \<noteq> NaN) cs"

text \<open>The labels \<^verbatim>\<open>"Normal'noe"\<close> and \<^verbatim>\<open>"Asimmetrichnoe"\<close> of the source
  (Russian for normal and asymmetric).\<close>

datatype distribution = Normal | Asymmetric

record normality_row =
  n_column :: string
  n_p_value :: pyfloat
  n_distribution :: distribution

text \<open>\<^verbatim>\<open>df.select_dtypes(exclude="object").columns\<close>: the columns whose dtype is
  not \<^verbatim>\<open>object\<close>, in column order.\<close>

definition numeric_columns :: "frame \<Rightarrow> string list" where
  "numeric_columns df = map fst (filter (\<lambda>p. snd p \<noteq> Object) (zip (columns df) (dtypes df)))"

text \<open>The loop of \<^verbatim>\<open>check_normality\<close> over the columns, appending to \<^verbatim>\<open>rows\<close>.\<close>

fun normality_rows ::
    "test_routine \<Rightarrow> frame \<Rightarrow> real \<Rightarrow> string list \<Rightarrow> normality_row list \<Rightarrow> error + normality_row list" where
  "normality_rows shapiro df alpha [] rows = Inr rows"
| "normality_rows shapiro df alpha (col # cols) rows =
     (case getitem df col of
        Inl e \<Rightarrow> Inl e
      | Inr cs \<Rightarrow>
        (case shapiro (dropna cs) of
           Inl e \<Rightarrow> Inl e
         | Inr (stat, p) \<Rightarrow>
             let result = (if fge p (Some alpha) then Normal else Asymmetric)
             in normality_rows shapiro df alpha cols
                  (rows @ [\<lparr>n_column = col, n_p_value = round4 p, n_distribution = result\<rparr>])))"

definition check_normality ::
    "test_routine \<Rightarrow> frame \<Rightarrow> string list option \<Rightarrow> real \<Rightarrow> error + normality_row list" where
  "check_normality shapiro df cols alpha =
     normality_rows shapiro df alpha
       (case cols of None \<Rightarrow> numeric_columns df | Some cs \<Rightarrow> cs) []"

section \<open>Correlation table and group comparison\<close>

text \<open>\<^verbatim>\<open>_is_normal(column, alpha)\<close>.\<close>

definition is_normal :: "test_routine \<Rightarrow> cell list \<Rightarrow> real \<Rightarrow> error + bool" where
  "is_normal shapiro column alpha =
     (case shapiro column of
        Inl e \<Rightarrow> Inl e
      | Inr (stat, p) \<Rightarrow> if fge p (Some alpha) then Inr True else Inr False)"

text \<open>\<^verbatim>\<open>pearsonr(x, y)\<close> and \<^verbatim>\<open>spearmanr(x, y)\<close>: raise, or return the coefficient
  and the p-value.\<close>

type_synonym corr_routine = "cell list \<Rightarrow> cell list \<Rightarrow> error + (pyfloat \<times> pyfloat)"

text \<open>
  What scipy's \<^verbatim>\<open>pearsonr\<close> and \<^verbatim>\<open>spearmanr\<close> do with a constant sample: given
  two samples of numbers of the same length, three values or more, one of which holds the
  same value throughout, the coefficient is not defined; they warn and return NaN for the
  coefficient and for the p-value. On any other input the computation is the parameter
  \<open>core\<close>.
\<close>

fun is_Num :: "cell \<Rightarrow> bool" where
  "is_Num (Num v) = True"
| "is_Num c = False"

definition all_equal :: "cell list \<Rightarrow> bool" where
  "all_equal xs = (case xs of [] \<Rightarrow> True | x # rest \<Rightarrow> list_all (\<lambda>c. c = x) rest)"

definition constant_input :: "cell list \<Rightarrow> cell list \<Rightarrow> bool" where
  "constant_input xs ys =
     (3 \<le> length xs \<and> length xs = length ys \<and> list_all is_Num xs \<and> list_all is_Num ys \<and>
      (all_equal xs \<or> all_equal ys))"

definition scipy_corr :: "corr_routine \<Rightarrow> corr_routine" where
  "scipy_corr core xs ys = (if constant_input xs ys then Inr (None, None) else core xs ys)"

text \<open>The two conclusion sentences of the source (Russian for "there is a statistically
  significant difference" and "there is no statistically significant difference").\<close>

datatype conclusion = Significant | NotSignificant

record quant_row =
  q_column :: string
  q_p_value :: pyfloat
  q_correlation :: pyfloat
  q_method :: string
  q_conclusion :: conclusion

text \<open>\<^verbatim>\<open>_is_normal(df[factor]) and _is_normal(df[target])\<close>: the target is looked
  at only when the factor passes.\<close>

definition both_normal :: "test_routine \<Rightarrow> frame \<Rightarrow> string \<Rightarrow> string \<Rightarrow> error + bool" where
  "both_normal shapiro df factor target =
     (case getitem df factor of
        Inl e \<Rightarrow> Inl e
      | Inr fc \<Rightarrow>
        (case is_normal shapiro fc (5 / 100) of
           Inl e \<Rightarrow> Inl e
         | Inr nf \<Rightarrow>
             if nf then
               (case getitem df target of
                  Inl e \<Rightarrow> Inl e
                | Inr tc \<Rightarrow> is_normal shapiro tc (5 / 100))
             else Inr False))"

text \<open>One pass of the loop of \<^verbatim>\<open>get_quant_p_values\<close>: the row of a factor.\<close>

definition quant_row_of ::
    "test_routine \<Rightarrow> corr_routine \<Rightarrow> corr_routine \<Rightarrow> frame \<Rightarrow> string \<Rightarrow> string \<Rightarrow> error + quant_row" where
  "quant_row_of shapiro pearsonr spearmanr df target factor =
     (case both_normal shapiro df factor target of
        Inl e \<Rightarrow> Inl e
      | Inr normal \<Rightarrow>
        (case getitem df factor of
           Inl e \<Rightarrow> Inl e
         | Inr fc \<Rightarrow>
           (case getitem df target of
              Inl e \<Rightarrow> Inl e
            | Inr tc \<Rightarrow>
              (case (if normal then pearsonr fc tc else spearmanr fc tc) of
                 Inl e \<Rightarrow> Inl e
               | Inr (r, p) \<Rightarrow>
                   Inr \<lparr>q_column = factor, q_p_value = round4 p, q_correlation = round4 r,
                        q_method = (if normal then ''Pearson'' else ''Spearman''),
                        q_conclusion = (if fle p (Some (5 / 100)) then Significant
                                        else NotSignificant)\<rparr>))))"

fun quant_rows ::
    "test_routine \<Rightarrow> corr_routine \<Rightarrow> corr_routine \<Rightarrow> frame \<Rightarrow> string \<Rightarrow> string list \<Rightarrow>
     quant_row list \<Rightarrow> error + quant_row list" where
  "quant_rows shapiro pearsonr spearmanr df target [] rows = Inr rows"
| "quant_rows shapiro pearsonr spearmanr df target (factor # factors) rows =
     (case quant_row_of shapiro pearsonr spearmanr df target factor of
        Inl e \<Rightarrow> Inl e
      | Inr r \<Rightarrow> quant_rows shapiro pearsonr spearmanr df target factors (rows @ [r]))"

text \<open>\<^verbatim>\<open>get_quant_p_values(df, target, factors)\<close>; without factors, every numeric
  column but the target (\<^verbatim>\<open>Index.drop\<close> raises when the target is not among them).\<close>

definition get_quant_p_values ::
    "test_routine \<Rightarrow> corr_routine \<Rightarrow> corr_routine \<Rightarrow> frame \<Rightarrow> string \<Rightarrow> string list option \<Rightarrow>
     error + quant_row list" where
  "get_quant_p_values shapiro pearsonr spearmanr df target factors =
     (case factors of
        Some fs \<Rightarrow> quant_rows shapiro pearsonr spearmanr df target fs []
      | None \<Rightarrow>
          if target \<in> set (numeric_columns df)
          then quant_rows shapiro pearsonr spearmanr df target
                 (filter (\<lambda>c. c \<noteq> target) (numeric_columns df)) []
          else Inl KeyError)"

text \<open>
  \<^verbatim>\<open>df.groupby(factor)[target].apply(list)\<close>: the target cells of each group, groups
  in sorted key order.
\<close>

definition groupby_lists :: "frame \<Rightarrow> string \<Rightarrow> string \<Rightarrow> error + cell list list" where
  "groupby_lists df factor target =
     (case groupby df factor of
        Inl e \<Rightarrow> Inl e
      | Inr gs \<Rightarrow>
        (case col_pos (columns df) target of
           None \<Rightarrow> Inl KeyError
         | Some j \<Rightarrow> Inr (map (\<lambda>g. map (\<lambda>e. cell_at (snd e) j) (entries (snd g))) gs)))"

text \<open>
  \<^verbatim>\<open>mannwhitneyu(*groups, alternative=alternative)\<close>: the routine receives the groups
  as its positional arguments, however many there are, and the alternative by keyword.
\<close>

type_synonym rank_routine = "cell list list \<Rightarrow> string \<Rightarrow> error + (pyfloat \<times> pyfloat)"

text \<open>The printed line: the factor, the p-value to four decimals, and the verdict.\<close>

record message =
  m_factor :: string
  m_p_value :: pyfloat
  m_verdict :: conclusion

definition test_mannwhitney ::
    "rank_routine \<Rightarrow> frame \<Rightarrow> string \<Rightarrow> string \<Rightarrow> string \<Rightarrow> error + message" where
  "test_mannwhitney mannwhitneyu df target factor alternative =
     (case groupby_lists df factor target of
        Inl e \<Rightarrow> Inl e
      | Inr groups \<Rightarrow>
        (case mannwhitneyu groups alternative of
           Inl e \<Rightarrow> Inl e
         | Inr (stat, p) \<Rightarrow>
             Inr \<lparr>m_factor = factor, m_p_value = round4 p,
                  m_verdict = (if fge p (Some (5 / 100)) then NotSignificant else Significant)\<rparr>))"

section \<open>Example frames\<close>

definition empty_example :: frame where
  "empty_example = \<lparr>columns = [''g'', ''x''], dtypes = [Object, Float64], entries = []\<rparr>"

definition flat_example :: frame where
  "flat_example =
     \<lparr>columns = [''g'', ''x''], dtypes = [Object, Float64],
      entries = [(0, [Str ''a'', Num 1]), (1, [Str ''a'', Num 100]), (2, [Str ''a'', Num 2]),
                 (3, [Str ''a'', Num 3]), (4, [Str ''a'', Num 4])]\<rparr>"

definition spaced_example :: frame where
  "spaced_example =
     \<lparr>columns = [''g'', ''my col''], dtypes = [Object, Float64],
      entries = [(0, [Str ''a'', Num 1]), (1, [Str ''a'', Num 2]), (2, [Str ''a'', Num 3])]\<rparr>"


definition short_example :: frame where
  "short_example =
     \<lparr>columns = [''x'', ''y''], dtypes = [Float64, Float64],
      entries = [(0, [Num 1, Num 1]), (1, [Num 2, NaN]), (2, [Num 3, Num 2])]\<rparr>"

definition constant_example :: frame where
  "constant_example =
     \<lparr>columns = [''x'', ''y''], dtypes = [Float64, Float64],
      entries = [(0, [Num 5, Num 1]), (1, [Num 5, Num 2]), (2, [Num 5, Num 4])]\<rparr>"

definition pair_example :: frame where
  "pair_example =
     \<lparr>columns = [''x'', ''y''], dtypes = [Float64, Float64],
      entries = [(0, [Num 1, Num 2]), (1, [Num 2, Num 4]), (2, [Num 3, Num 7])]\<rparr>"

section \<open>Sample routines\<close>

text \<open>Routines to run the helpers on the example frames: a query evaluator, normality
  tests (one that refuses fewer than three values, one that always answers), two
  correlation routines, and a rank-sum test that refuses anything but two samples.\<close>

definition sample_query :: query_eval where
  "sample_query d c lower upper = Inl SyntaxError"

definition sample_shapiro :: test_routine where
  "sample_shapiro cs = (if length cs < 3 then Inl ValueError else Inr (Some 1, Some (1 / 2)))"

definition sample_shapiro_core :: test_routine where
  "sample_shapiro_core cs = Inr (Some 1, Some (1 / 2))"

definition sample_pearsonr :: corr_routine where
  "sample_pearsonr xs ys = Inr (Some (123456 / 1000000), Some (1 / 100))"

definition sample_spearmanr :: corr_routine where
  "sample_spearmanr xs ys = Inr (Some (- 1 / 2), Some (1 / 2))"

definition sample_mannwhitneyu :: rank_routine where
  "sample_mannwhitneyu gs alternative =
     (if length gs = 2 then Inr (Some 0, Some (1 / 10)) else Inl TypeError)"

section \<open>Ungrouped outlier removal keeps only rows within the bounds\<close>

lemma getitem_Some:
  "col_pos (columns d) c = Some j \<Longrightarrow> getitem d c = Inr (map (\<lambda>e. cell_at (snd e) j) (entries d))"
  by (simp add: getitem_def)

lemma quantile_numeric: "\<not> list_ex is_Str cs \<Longrightarrow> \<exists>Q. quantile cs q = Inr Q"
  by (simp add: quantile_def Let_def)






text \<open>With a name of two or more identifiers the query text does not parse: the call
  raises, the caller's table is untouched and nothing is returned.\<close>

lemma drop_outliers_unparsable_name:
  assumes present: "col_pos (columns T) C = Some j"
    and numeric: "\<not> list_ex is_Str (map (\<lambda>e. cell_at (snd e) j) (entries T))"
    and name: "\<not> plain_name C" "juxtaposed_names C"
  shows "drop_outliers other T C k inplace = Inl SyntaxError"
proof -
  let ?cs = "map (\<lambda>e. cell_at (snd e) j) (entries T)"
  obtain Q1 where Q1: "quantile ?cs (1 / 4) = Inr Q1"
    using quantile_numeric [OF numeric] by blast
  obtain Q3 where Q3: "quantile ?cs (3 / 4) = Inr Q3"
    using quantile_numeric [OF numeric] by blast
  show ?thesis
    using Q1 Q3 present name
    by (simp add: drop_outliers_def getitem_Some query_between_def Let_def)
qed

lemmas name_eval =
  plain_name_def ident_start_def ident_char_def py_keywords_def juxtaposed_names_def

lemma plain_name_x: "plain_name ''x''"
  by (simp add: name_eval)


section \<open>The two modes\<close>

lemmas outlier_eval =
  grouped_result_def groupby_def group_keys_def getitem_def cell_at_def quantile_def
  keep_between_def in_bounds_def fsub_def fadd_def fmul_def fge_def fle_def concat_frames_def
  reset_index_def query_between_def

lemma flat_example_grouped_result:
  "grouped_result flat_example ''x'' ''g'' (3 / 2) =
     Inr \<lparr>columns = [''g'', ''x''], dtypes = [Object, Float64],
          entries = [(0, [Str ''a'', Num 1]), (1, [Str ''a'', Num 2]),
                     (2, [Str ''a'', Num 3]), (3, [Str ''a'', Num 4])]\<rparr>"
  by (simp add: flat_example_def outlier_eval)

lemma flat_example_drop_outliers:
  "drop_outliers sample_query flat_example ''x'' (3 / 2) False =
     Inr (flat_example,
          Some \<lparr>columns = [''g'', ''x''], dtypes = [Object, Float64],
                entries = [(0, [Str ''a'', Num 1]), (2, [Str ''a'', Num 2]),
                           (3, [Str ''a'', Num 3]), (4, [Str ''a'', Num 4])]\<rparr>)"
  by (simp add: drop_outliers_def flat_example_def outlier_eval plain_name_x)

lemma loc_setall_labels: "map fst (entries (loc_setall T result)) = map fst (entries T)"
  by (simp add: loc_setall_def comp_def)

text \<open>The in-place mode of the grouped helper never changes the number of rows of the
  caller's table, whatever was filtered out.\<close>

lemma grouped_inplace_keeps_row_count:
  assumes "drop_outliers_grouped T C G k True = Inr (T', ret)"
  shows "ret = None \<and> map fst (entries T') = map fst (entries T) \<and>
         length (entries T') = length (entries T)"
proof -
  from assms obtain result where "T' = loc_setall T result" and "ret = None"
    by (auto simp: drop_outliers_grouped_def split: sum.splits)
  then show ?thesis
    using loc_setall_labels [of T result] by (simp add: loc_setall_def)
qed

text \<open>
  Claim C2, at the frame \<open>flat_example\<close> (one group \<open>a\<close>, values 1, 100, 2, 3, 4,
  labels 0 to 4). The filter keeps the four rows 1, 2, 3, 4. With the in-place flag,
  \<^verbatim>\<open>drop_outliers_grouped\<close> returns nothing, but the caller's table is not replaced
  with the four filtered rows: it still has five rows, the filtered rows at the labels
  0 to 3 and an all-missing row at label 4.
\<close>

theorem grouped_inplace_failing_input:
  "grouped_result flat_example ''x'' ''g'' (3 / 2) =
     Inr \<lparr>columns = [''g'', ''x''], dtypes = [Object, Float64],
          entries = [(0, [Str ''a'', Num 1]), (1, [Str ''a'', Num 2]),
                     (2, [Str ''a'', Num 3]), (3, [Str ''a'', Num 4])]\<rparr> \<and>
   drop_outliers_grouped flat_example ''x'' ''g'' (3 / 2) True =
     Inr (\<lparr>columns = [''g'', ''x''], dtypes = [Object, Float64],
           entries = [(0, [Str ''a'', Num 1]), (1, [Str ''a'', Num 2]),
                      (2, [Str ''a'', Num 3]), (3, [Str ''a'', Num 4]),
                      (4, [NaN, NaN])]\<rparr>,
          None)"
  by (simp add: drop_outliers_grouped_def flat_example_grouped_result)
    (simp add: loc_setall_def flat_example_def)

section \<open>Grouping by a single-valued column\<close>

lemma remdups_all_equal: "xs \<noteq> [] \<Longrightarrow> \<forall>x \<in> set xs. x = v \<Longrightarrow> remdups xs = [v]"
proof (induction xs)
  case Nil
  then show ?case by simp
next
  case (Cons a xs)
  then show ?case by (cases xs) auto
qed

lemma group_keys_single:
  assumes "cs \<noteq> []" and "\<forall>c \<in> set cs. c = v" and "v \<noteq> NaN"
  shows "group_keys cs = [v]"
proof -
  have "filter (\<lambda>c. c \<noteq> NaN) cs = cs"
    using assms by (auto simp: filter_id_conv)
  then show ?thesis
    using assms by (simp add: group_keys_def remdups_all_equal)
qed

lemma groupby_single:
  assumes "entries T \<noteq> []" and "col_pos (columns T) G = Some j"
    and "\<forall>e \<in> set (entries T). cell_at (snd e) j = v" and "v \<noteq> NaN"
  shows "groupby T G = Inr [(v, T)]"
proof -
  have keys: "group_keys (map (\<lambda>e. cell_at (snd e) j) (entries T)) = [v]"
    using assms by (intro group_keys_single) auto
  have "filter (\<lambda>e. cell_at (snd e) j = v) (entries T) = entries T"
    using assms(3) by (simp add: filter_id_conv)
  then show ?thesis
    using assms(2) keys by (simp add: groupby_def)
qed

lemma concat_frames_single: "concat_frames [f] = Inr f"
  by (simp add: concat_frames_def)

lemma plain_name_my_col: "\<not> plain_name ''my col''" and juxtaposed_my_col: "juxtaposed_names ''my col''"
  by (simp_all add: name_eval)

text \<open>
  Claim C3 as stated fails. At \<open>flat_example\<close>, whose grouping column holds \<open>a\<close> in
  every row, the grouped helper returns the kept rows relabelled 0 to 3, the ungrouped one
  returns them with their labels 0, 2, 3, 4. At the empty frame the grouped helper raises
  (nothing to concatenate) where the ungrouped one returns the empty frame. At
  \<open>spaced_example\<close>, whose target column is named \<^verbatim>\<open>my col\<close>, the ungrouped
  helper raises on its query text where the grouped one, which uses a mask, returns.
\<close>

theorem grouped_single_key_counterexample:
  "getitem flat_example ''g'' = Inr [Str ''a'', Str ''a'', Str ''a'', Str ''a'', Str ''a''] \<and>
   drop_outliers_grouped flat_example ''x'' ''g'' (3 / 2) False \<noteq>
     drop_outliers sample_query flat_example ''x'' (3 / 2) False \<and>
   drop_outliers_grouped empty_example ''x'' ''g'' (3 / 2) False = Inl ValueError \<and>
   drop_outliers sample_query empty_example ''x'' (3 / 2) False =
     Inr (empty_example, Some empty_example) \<and>
   drop_outliers_grouped spaced_example ''my col'' ''g'' (3 / 2) False =
     Inr (spaced_example, Some spaced_example) \<and>
   drop_outliers sample_query spaced_example ''my col'' (3 / 2) False = Inl SyntaxError"
proof (intro conjI)
  show "getitem flat_example ''g'' = Inr [Str ''a'', Str ''a'', Str ''a'', Str ''a'', Str ''a'']"
    by (simp add: flat_example_def getitem_def cell_at_def)
  show "drop_outliers_grouped flat_example ''x'' ''g'' (3 / 2) False \<noteq>
     drop_outliers sample_query flat_example ''x'' (3 / 2) False"
    by (simp add: drop_outliers_grouped_def flat_example_grouped_result flat_example_drop_outliers)
  show "drop_outliers_grouped empty_example ''x'' ''g'' (3 / 2) False = Inl ValueError"
    by (simp add: drop_outliers_grouped_def empty_example_def outlier_eval)
  show "drop_outliers sample_query empty_example ''x'' (3 / 2) False =
     Inr (empty_example, Some empty_example)"
    by (simp add: drop_outliers_def empty_example_def outlier_eval plain_name_x)
  show "drop_outliers_grouped spaced_example ''my col'' ''g'' (3 / 2) False =
     Inr (spaced_example, Some spaced_example)"
    by (simp add: drop_outliers_grouped_def spaced_example_def outlier_eval)
  show "drop_outliers sample_query spaced_example ''my col'' (3 / 2) False = Inl SyntaxError"
    by (simp add: drop_outliers_def spaced_example_def outlier_eval plain_name_my_col
        juxtaposed_my_col)
qed

text \<open>
  Claim C3, amended. For a non-empty table whose grouping column holds one and the same
  non-missing value \<open>v\<close> in every row, and a target column whose name is a plain
  identifier (so that the query expression of the ungrouped helper denotes the column):
  grouped outlier removal in the returning mode fails exactly when ungrouped removal
  fails, with the same error, and otherwise returns the rows that ungrouped removal
  returns, in the same order, relabelled \<open>0, 1, 2, ...\<close> (ungrouped removal keeps the
  original labels); the caller's table is unchanged by both.
\<close>

theorem grouped_single_key:
  assumes "entries T \<noteq> []" and "col_pos (columns T) G = Some j"
    and "\<forall>e \<in> set (entries T). cell_at (snd e) j = v" and "v \<noteq> NaN"
    and name: "plain_name C"
  shows "drop_outliers_grouped T C G k False =
           (case drop_outliers other T C k False of
              Inl e \<Rightarrow> Inl e
            | Inr (d, ret) \<Rightarrow> Inr (d, map_option reset_index ret))"
  by (simp add: drop_outliers_grouped_def grouped_result_def drop_outliers_def query_between_def
      name groupby_single [OF assms(1-4)] concat_frames_single Let_def split: sum.splits)

lemma flat_example_g_pos: "col_pos (columns flat_example) ''g'' = Some 0"
  by (simp add: flat_example_def)

lemma flat_example_g_single: "\<forall>e \<in> set (entries flat_example). cell_at (snd e) 0 = Str ''a''"
  by (simp add: flat_example_def cell_at_def)

theorem grouped_single_key_witness:
  "entries flat_example \<noteq> [] \<and> col_pos (columns flat_example) ''g'' = Some 0 \<and>
   map (cell_at [Str ''a'', Num 1]) [0] = [Str ''a''] \<and> Str ''a'' \<noteq> NaN \<and> plain_name ''x'' \<and>
   drop_outliers_grouped flat_example ''x'' ''g'' (3 / 2) False =
     Inr (flat_example,
          Some (reset_index
            \<lparr>columns = [''g'', ''x''], dtypes = [Object, Float64],
             entries = [(0, [Str ''a'', Num 1]), (2, [Str ''a'', Num 2]),
                        (3, [Str ''a'', Num 3]), (4, [Str ''a'', Num 4])]\<rparr>))"
proof -
  have ne: "entries flat_example \<noteq> []"
    by (simp add: flat_example_def)
  have v: "Str ''a'' \<noteq> NaN"
    by simp
  show ?thesis
    using grouped_single_key [OF ne flat_example_g_pos flat_example_g_single v plain_name_x,
        of "3 / 2" sample_query]
      ne flat_example_g_pos plain_name_x
    by (simp add: flat_example_drop_outliers cell_at_def)
qed

section \<open>Rows with a missing group key\<close>












section \<open>Rounding\<close>

lemma rint_le: "x \<le> of_int n \<Longrightarrow> rint x \<le> n"
proof -
  assume le: "x \<le> of_int n"
  have fl: "\<lfloor>x\<rfloor> \<le> n" using le by (simp add: floor_le_iff)
  show ?thesis
  proof (cases "x = of_int \<lfloor>x\<rfloor>")
    case True
    then have "x - of_int \<lfloor>x\<rfloor> = 0" by simp
    then have "rint x = \<lfloor>x\<rfloor>" by (simp add: rint_def Let_def)
    with fl show ?thesis by simp
  next
    case False
    then have "x \<noteq> of_int n" using floor_of_int by metis
    with le have "x < of_int n" by simp
    then have "\<lfloor>x\<rfloor> < n" by (simp add: floor_less_iff)
    moreover have "rint x \<le> \<lfloor>x\<rfloor> + 1" by (simp add: rint_def Let_def)
    ultimately show ?thesis by simp
  qed
qed

lemma rint_ge: "of_int n \<le> x \<Longrightarrow> n \<le> rint x"
proof -
  assume "of_int n \<le> x"
  then have "n \<le> \<lfloor>x\<rfloor>" by (simp add: le_floor_iff)
  moreover have "\<lfloor>x\<rfloor> \<le> rint x" by (simp add: rint_def Let_def)
  ultimately show ?thesis by simp
qed

lemma round4_between:
  assumes "p = Some v" and "of_int a \<le> v" and "v \<le> of_int b"
  shows "\<exists>w. round4 p = Some w \<and> of_int a \<le> w \<and> w \<le> of_int b"
proof -
  have "of_int (a * 10000) \<le> v * 10000" using assms(2) by simp
  then have lo: "a * 10000 \<le> rint (v * 10000)" by (rule rint_ge)
  have "v * 10000 \<le> of_int (b * 10000)" using assms(3) by simp
  then have hi: "rint (v * 10000) \<le> b * 10000" by (rule rint_le)
  have "(of_int a :: real) \<le> of_int (rint (v * 10000)) / 10000"
  proof -
    have "(of_int (a * 10000) :: real) \<le> of_int (rint (v * 10000))"
      using lo by (simp only: of_int_le_iff)
    then show ?thesis by simp
  qed
  moreover have "(of_int (rint (v * 10000)) :: real) / 10000 \<le> of_int b"
  proof -
    have "(of_int (rint (v * 10000)) :: real) \<le> of_int (b * 10000)"
      using hi by (simp only: of_int_le_iff)
    then show ?thesis by simp
  qed
  ultimately show ?thesis
    unfolding round4_def assms(1)
    by (intro exI [of _ "of_int (rint (v * 10000)) / 10000"]) simp
qed

text \<open>Rounding at work: to the nearest, ties to the even digit.\<close>

lemma round4_examples:
  "round4 (Some (123456 / 1000000)) = Some (1235 / 10000)"
  "round4 (Some (12345 / 100000)) = Some (1234 / 10000)"
  "round4 (Some (12355 / 100000)) = Some (1236 / 10000)"
  "round4 (Some (- 1 / 3)) = Some (- 3333 / 10000)"
  "round4 None = None"
  by (simp_all add: round4_def rint_def)

section \<open>Normality check: one row per column\<close>


lemma normality_rows_Inr:
  "normality_rows shapiro df alpha cols rows = Inr out \<Longrightarrow>
     \<exists>new. out = rows @ new \<and> list_all2 (\<lambda>col r. \<exists>cs stat p. getitem df col = Inr cs \<and> shapiro (dropna cs) = Inr (stat, p) \<and>
        r = \<lparr>n_column = col, n_p_value = round4 p,
             n_distribution = (if fge p (Some alpha) then Normal else Asymmetric)\<rparr>) cols new"
proof (induction cols arbitrary: rows)
  case Nil
  then show ?case by simp
next
  case (Cons col cols)
  from Cons.prems obtain cs stat p where cs: "getitem df col = Inr cs"
    and sh: "shapiro (dropna cs) = Inr (stat, p)"
    and rest: "normality_rows shapiro df alpha cols
        (rows @ [\<lparr>n_column = col, n_p_value = round4 p,
                  n_distribution = (if fge p (Some alpha) then Normal else Asymmetric)\<rparr>]) = Inr out"
    by (auto simp: Let_def split: sum.splits)
  from Cons.IH [OF rest] obtain new where
    new: "out = (rows @ [\<lparr>n_column = col, n_p_value = round4 p,
                  n_distribution = (if fge p (Some alpha) then Normal else Asymmetric)\<rparr>]) @ new"
    and all: "list_all2 (\<lambda>col r. \<exists>cs stat p. getitem df col = Inr cs \<and> shapiro (dropna cs) = Inr (stat, p) \<and>
        r = \<lparr>n_column = col, n_p_value = round4 p,
             n_distribution = (if fge p (Some alpha) then Normal else Asymmetric)\<rparr>) cols new"
    by blast
  from cs sh new all show ?case
    by (intro exI [of _ "\<lparr>n_column = col, n_p_value = round4 p,
                  n_distribution = (if fge p (Some alpha) then Normal else Asymmetric)\<rparr> # new"]) simp
qed




section \<open>Normality check: columns with fewer than three values\<close>

lemma normality_rows_succeeds:
  assumes "\<forall>c \<in> set cols. \<exists>cs s p. getitem df c = Inr cs \<and> shapiro (dropna cs) = Inr (s, p)"
  shows "\<exists>out. normality_rows shapiro df alpha cols rows = Inr out"
  using assms
proof (induction cols arbitrary: rows)
  case Nil
  then show ?case by simp
next
  case (Cons c cols)
  from Cons.prems obtain cs s p where "getitem df c = Inr cs" and "shapiro (dropna cs) = Inr (s, p)"
    by auto
  moreover from Cons.prems
  have "\<forall>c \<in> set cols. \<exists>cs s p. getitem df c = Inr cs \<and> shapiro (dropna cs) = Inr (s, p)"
    by simp
  ultimately show ?case
    using Cons.IH by (simp add: Let_def)
qed

lemma normality_rows_fails:
  assumes "c \<in> set cols"
    and "getitem df c = Inl e \<or> (\<exists>cs. getitem df c = Inr cs \<and> shapiro (dropna cs) = Inl e)"
  shows "\<exists>e'. normality_rows shapiro df alpha cols rows = Inl e'"
  using assms(1)
proof (induction cols arbitrary: rows)
  case Nil
  then show ?case by simp
next
  case (Cons a cols)
  show ?case
  proof (cases "a = c")
    case True
    with assms(2) show ?thesis by auto
  next
    case False
    with Cons.prems have "c \<in> set cols" by simp
    from Cons.IH [OF this] show ?thesis
      by (auto simp: Let_def split: sum.splits)
  qed
qed

lemma short_example_y: "getitem short_example ''y'' = Inr [Num 1, NaN, Num 2]"
  by (simp add: short_example_def getitem_def cell_at_def)

lemma short_example_x: "getitem short_example ''x'' = Inr [Num 1, Num 2, Num 3]"
  by (simp add: short_example_def getitem_def cell_at_def)

lemma sample_shapiro_two:
  "scipy_shapiro sample_shapiro_core [Num 1, Num 2] = Inr (None, None)"
  by (simp add: scipy_shapiro_def)

lemma sample_shapiro_three:
  "scipy_shapiro sample_shapiro_core [Num 1, Num 2, Num 3] = Inr (Some 1, Some (1 / 2))"
  by (simp add: scipy_shapiro_def sample_shapiro_core_def)

lemma short_example_normality:
  "check_normality (scipy_shapiro sample_shapiro_core) short_example (Some [''x'', ''y''])
       (5 / 100) =
     Inr [\<lparr>n_column = ''x'', n_p_value = Some (1 / 2), n_distribution = Normal\<rparr>,
          \<lparr>n_column = ''y'', n_p_value = None, n_distribution = Asymmetric\<rparr>]"
  by (simp add: check_normality_def)
    (simp add: short_example_x short_example_y dropna_def sample_shapiro_two
      sample_shapiro_three round4_def rint_def fge_def)

text \<open>
  Claim C9 as stated fails. The column \<open>y\<close> of \<open>short_example\<close> has two non-missing
  values. \<^verbatim>\<open>check_normality\<close> makes no check of its own, scipy's \<^verbatim>\<open>shapiro\<close>
  returns NaN on two values instead of raising, and so the call returns the full table,
  with a NaN row for \<open>y\<close>.
\<close>

theorem check_normality_degenerate_counterexample:
  "getitem short_example ''y'' = Inr [Num 1, NaN, Num 2] \<and>
   dropna [Num 1, NaN, Num 2] = [Num 1, Num 2] \<and>
   check_normality (scipy_shapiro sample_shapiro_core) short_example (Some [''x'', ''y''])
       (5 / 100) =
     Inr [\<lparr>n_column = ''x'', n_p_value = Some (1 / 2), n_distribution = Normal\<rparr>,
          \<lparr>n_column = ''y'', n_p_value = None, n_distribution = Asymmetric\<rparr>]"
  using short_example_y short_example_normality by (simp add: dropna_def)

text \<open>
  Claim C9, amended. \<^verbatim>\<open>check_normality\<close> does not check the number of values
  itself. With scipy's \<^verbatim>\<open>shapiro\<close>, which returns NaN on fewer than three values:
  when every examined column is present and the test returns on the columns that have
  three non-missing values or more, the call returns the full table, and the row of every
  column with fewer than three non-missing values has the p-value NaN and the label
  asymmetric. When an examined column is absent, or the test raises on a column, the
  call fails with an error and produces no table, not even for the columns that come
  before.
\<close>

theorem check_normality_small_sample:
  assumes examined: "examined = (case cols of None \<Rightarrow> numeric_columns df | Some cs \<Rightarrow> cs)"
  shows "((\<forall>c \<in> set examined. \<exists>cs. getitem df c = Inr cs \<and>
              (3 \<le> length (dropna cs) \<longrightarrow> (\<exists>s p. core (dropna cs) = Inr (s, p)))) \<longrightarrow>
          (\<exists>out. check_normality (scipy_shapiro core) df cols alpha = Inr out \<and>
             length out = length examined \<and>
             (\<forall>i < length examined. \<forall>cs.
                getitem df (examined ! i) = Inr cs \<and> length (dropna cs) < 3 \<longrightarrow>
                n_column (out ! i) = examined ! i \<and> n_p_value (out ! i) = None \<and>
                n_distribution (out ! i) = Asymmetric))) \<and>
         ((\<exists>c \<in> set examined. \<exists>e. getitem df c = Inl e \<or>
              (\<exists>cs. getitem df c = Inr cs \<and> scipy_shapiro core (dropna cs) = Inl e)) \<longrightarrow>
          (\<exists>e. check_normality (scipy_shapiro core) df cols alpha = Inl e))"
proof (intro conjI impI)
  assume ok: "\<forall>c \<in> set examined. \<exists>cs. getitem df c = Inr cs \<and>
              (3 \<le> length (dropna cs) \<longrightarrow> (\<exists>s p. core (dropna cs) = Inr (s, p)))"
  have "\<exists>cs s p. getitem df c = Inr cs \<and> scipy_shapiro core (dropna cs) = Inr (s, p)"
    if "c \<in> set examined" for c
  proof -
    from ok that obtain cs where cs: "getitem df c = Inr cs"
      and core: "3 \<le> length (dropna cs) \<longrightarrow> (\<exists>s p. core (dropna cs) = Inr (s, p))"
      by blast
    from core have "\<exists>s p. scipy_shapiro core (dropna cs) = Inr (s, p)"
      by (cases "length (dropna cs) < 3") (auto simp: scipy_shapiro_def)
    with cs show ?thesis by blast
  qed
  then have "\<forall>c \<in> set examined. \<exists>cs s p.
      getitem df c = Inr cs \<and> scipy_shapiro core (dropna cs) = Inr (s, p)"
    by blast
  from normality_rows_succeeds [OF this]
  obtain out where out: "normality_rows (scipy_shapiro core) df alpha examined [] = Inr out"
    by blast
  from normality_rows_Inr [OF out]
  have all: "list_all2 (\<lambda>col r. \<exists>cs stat p. getitem df col = Inr cs \<and>
        scipy_shapiro core (dropna cs) = Inr (stat, p) \<and>
        r = \<lparr>n_column = col, n_p_value = round4 p,
             n_distribution = (if fge p (Some alpha) then Normal else Asymmetric)\<rparr>) examined out"
    by simp
  then have len: "length out = length examined"
    by (simp add: list_all2_lengthD)
  have small: "n_column (out ! i) = examined ! i \<and> n_p_value (out ! i) = None \<and>
      n_distribution (out ! i) = Asymmetric"
    if i: "i < length examined" and cs: "getitem df (examined ! i) = Inr cs"
      and short: "length (dropna cs) < 3" for i cs
  proof -
    from list_all2_nthD [OF all i] obtain cs' stat p where
      cs': "getitem df (examined ! i) = Inr cs'"
      and sh: "scipy_shapiro core (dropna cs') = Inr (stat, p)"
      and r: "out ! i = \<lparr>n_column = examined ! i, n_p_value = round4 p,
             n_distribution = (if fge p (Some alpha) then Normal else Asymmetric)\<rparr>"
      by blast
    from cs cs' have "cs' = cs" by simp
    with sh short have "p = None" by (simp add: scipy_shapiro_def)
    with r show ?thesis by (simp add: round4_def fge_def)
  qed
  from out len small
  show "\<exists>out. check_normality (scipy_shapiro core) df cols alpha = Inr out \<and>
             length out = length examined \<and>
             (\<forall>i < length examined. \<forall>cs.
                getitem df (examined ! i) = Inr cs \<and> length (dropna cs) < 3 \<longrightarrow>
                n_column (out ! i) = examined ! i \<and> n_p_value (out ! i) = None \<and>
                n_distribution (out ! i) = Asymmetric)"
    unfolding check_normality_def examined [symmetric] by blast
next
  assume "\<exists>c \<in> set examined. \<exists>e. getitem df c = Inl e \<or>
              (\<exists>cs. getitem df c = Inr cs \<and> scipy_shapiro core (dropna cs) = Inl e)"
  then obtain c e where "c \<in> set examined"
    and "getitem df c = Inl e \<or> (\<exists>cs. getitem df c = Inr cs \<and> scipy_shapiro core (dropna cs) = Inl e)"
    by blast
  from normality_rows_fails [OF this]
  show "\<exists>e. check_normality (scipy_shapiro core) df cols alpha = Inl e"
    unfolding check_normality_def examined [symmetric] by blast
qed

theorem check_normality_small_sample_witness:
  "length (dropna [Num 1, NaN, Num 2]) = 2 \<and>
   (\<exists>out. check_normality (scipy_shapiro sample_shapiro_core) short_example
             (Some [''x'', ''y'']) (5 / 100) = Inr out \<and>
          length out = 2 \<and> n_column (out ! 1) = ''y'' \<and> n_p_value (out ! 1) = None \<and>
          n_distribution (out ! 1) = Asymmetric)"
proof -
  have ok: "\<forall>c \<in> set [''x'', ''y'']. \<exists>cs. getitem short_example c = Inr cs \<and>
      (3 \<le> length (dropna cs) \<longrightarrow> (\<exists>s p. sample_shapiro_core (dropna cs) = Inr (s, p)))"
    by (simp add: short_example_x short_example_y sample_shapiro_core_def)
  have two: "length (dropna [Num 1, NaN, Num 2]) = 2"
    by (simp add: dropna_def)
  from check_normality_small_sample [where cols = "Some [''x'', ''y'']" and df = short_example
      and core = sample_shapiro_core and alpha = "5 / 100" and examined = "[''x'', ''y'']"] ok
  obtain out where out: "check_normality (scipy_shapiro sample_shapiro_core) short_example
             (Some [''x'', ''y'']) (5 / 100) = Inr out"
    and len: "length out = length [''x'', ''y'']"
    and small: "\<forall>i < length [''x'', ''y'']. \<forall>cs.
                getitem short_example ([''x'', ''y''] ! i) = Inr cs \<and> length (dropna cs) < 3 \<longrightarrow>
                n_column (out ! i) = [''x'', ''y''] ! i \<and> n_p_value (out ! i) = None \<and>
                n_distribution (out ! i) = Asymmetric"
    by auto
  from small [rule_format, of 1 "[Num 1, NaN, Num 2]"] two
  have "n_column (out ! 1) = ''y'' \<and> n_p_value (out ! 1) = None \<and>
      n_distribution (out ! 1) = Asymmetric"
    by (simp add: short_example_y)
  with out len two show ?thesis by auto
qed

section \<open>Mann-Whitney with a wrong number of groups\<close>

lemma length_group_keys: "length (group_keys cs) = length (remdups (dropna cs))"
  by (simp add: group_keys_def dropna_def)

text \<open>
  Claim C5. \<^verbatim>\<open>test_mannwhitney\<close> hands the groups of the factor column to the
  rank-sum routine as its positional arguments without counting them. With a routine that
  rejects any number of samples other than two with a \<^verbatim>\<open>TypeError\<close>: when the
  factor column (present, as is the target column) has a number of distinct non-missing
  values other than two, \<^verbatim>\<open>test_mannwhitney\<close> fails with that error and prints no
  message.
\<close>

theorem mannwhitney_wrong_group_count:
  assumes contract: "\<forall>gs alt. length gs \<noteq> 2 \<longrightarrow> mannwhitneyu gs alt = Inl TypeError"
    and factor: "getitem df factor = Inr keys"
    and target: "getitem df target = Inr vals"
    and count: "length (remdups (dropna keys)) \<noteq> 2"
  shows "test_mannwhitney mannwhitneyu df target factor alternative = Inl TypeError"
proof -
  from factor obtain j where j: "col_pos (columns df) factor = Some j"
    and keys: "keys = map (\<lambda>e. cell_at (snd e) j) (entries df)"
    by (auto simp: getitem_def split: option.splits)
  from target obtain i where i: "col_pos (columns df) target = Some i"
    by (auto simp: getitem_def split: option.splits)
  obtain gs where gs: "groupby_lists df factor target = Inr gs"
    and len: "length gs = length (group_keys keys)"
    using j i keys by (simp add: groupby_lists_def groupby_def)
  from len count have "length gs \<noteq> 2"
    by (simp add: length_group_keys)
  with contract have "mannwhitneyu gs alternative = Inl TypeError" by blast
  with gs show ?thesis by (simp add: test_mannwhitney_def)
qed


lemma sample_mannwhitneyu_contract:
  "\<forall>gs alt. length gs \<noteq> 2 \<longrightarrow> sample_mannwhitneyu gs alt = Inl TypeError"
  by (simp add: sample_mannwhitneyu_def)

lemma flat_example_g: "getitem flat_example ''g'' = Inr [Str ''a'', Str ''a'', Str ''a'', Str ''a'', Str ''a'']"
  by (simp add: flat_example_def getitem_def cell_at_def)

lemma flat_example_x: "getitem flat_example ''x'' = Inr [Num 1, Num 100, Num 2, Num 3, Num 4]"
  by (simp add: flat_example_def getitem_def cell_at_def)

theorem mannwhitney_wrong_group_count_witness:
  "sample_mannwhitneyu [[Num 1, Num 100, Num 2, Num 3, Num 4]] ''two-sided'' = Inl TypeError \<and>
   length (remdups (dropna [Str ''a'', Str ''a'', Str ''a'', Str ''a'', Str ''a''])) = 1 \<and>
   test_mannwhitney sample_mannwhitneyu flat_example ''x'' ''g'' ''two-sided'' = Inl TypeError"
proof -
  have count: "length (remdups (dropna [Str ''a'', Str ''a'', Str ''a'', Str ''a'', Str ''a''])) \<noteq> 2"
    by (simp add: dropna_def)
  have one: "length (remdups (dropna [Str ''a'', Str ''a'', Str ''a'', Str ''a'', Str ''a''])) = 1"
    by (simp add: dropna_def)
  have single: "sample_mannwhitneyu [[Num 1, Num 100, Num 2, Num 3, Num 4]] ''two-sided'' =
      Inl TypeError"
    by (simp add: sample_mannwhitneyu_def)
  show ?thesis
    using mannwhitney_wrong_group_count [OF sample_mannwhitneyu_contract flat_example_g
        flat_example_x count, of "''two-sided''"]
      single one
    by simp
qed

section \<open>Correlation table: method and coefficient\<close>

lemma quant_rows_Inr:
  "quant_rows shapiro pearsonr spearmanr df target fs rows = Inr out \<Longrightarrow>
     \<exists>new. out = rows @ new \<and>
       list_all2 (\<lambda>f r. quant_row_of shapiro pearsonr spearmanr df target f = Inr r) fs new"
proof (induction fs arbitrary: rows)
  case Nil
  then show ?case by simp
next
  case (Cons f fs)
  from Cons.prems obtain r where r: "quant_row_of shapiro pearsonr spearmanr df target f = Inr r"
    and rest: "quant_rows shapiro pearsonr spearmanr df target fs (rows @ [r]) = Inr out"
    by (auto split: sum.splits)
  from Cons.IH [OF rest] obtain new where "out = (rows @ [r]) @ new"
    and "list_all2 (\<lambda>f r. quant_row_of shapiro pearsonr spearmanr df target f = Inr r) fs new"
    by blast
  with r show ?case
    by (intro exI [of _ "r # new"]) simp
qed

lemma both_normal_iff:
  assumes "getitem df factor = Inr fc" and "getitem df target = Inr tc"
    and "both_normal shapiro df factor target = Inr normal"
  shows "normal \<longleftrightarrow>
           is_normal shapiro fc (5 / 100) = Inr True \<and> is_normal shapiro tc (5 / 100) = Inr True"
  using assms by (auto simp: both_normal_def split: sum.splits if_splits)

lemma quant_row_of_Inr:
  assumes "quant_row_of shapiro pearsonr spearmanr df target factor = Inr r"
  shows "\<exists>fc tc normal c p.
           getitem df factor = Inr fc \<and> getitem df target = Inr tc \<and>
           both_normal shapiro df factor target = Inr normal \<and>
           (if normal then pearsonr fc tc else spearmanr fc tc) = Inr (c, p) \<and>
           q_column r = factor \<and>
           q_method r = (if normal then ''Pearson'' else ''Spearman'') \<and>
           q_correlation r = round4 c \<and> q_p_value r = round4 p"
  using assms unfolding quant_row_of_def
  by (auto split: sum.splits prod.splits)

lemma is_normal_True_iff:
  "is_normal shapiro column alpha = Inr True \<longleftrightarrow>
     (\<exists>s v. shapiro column = Inr (s, Some v) \<and> alpha \<le> v)"
proof (cases "shapiro column")
  case (Inl e)
  then show ?thesis by (simp add: is_normal_def)
next
  case (Inr r)
  obtain s p where r: "r = (s, p)" by (cases r)
  show ?thesis
    by (cases p) (simp_all add: is_normal_def Inr r fge_def)
qed

lemma constant_example_quant:
  "get_quant_p_values (scipy_shapiro sample_shapiro_core) (scipy_corr sample_pearsonr)
       (scipy_corr sample_spearmanr) constant_example ''y'' (Some [''x'']) =
     Inr [\<lparr>q_column = ''x'', q_p_value = None, q_correlation = None,
           q_method = ''Pearson'', q_conclusion = NotSignificant\<rparr>]"
  by (simp add: constant_example_def get_quant_p_values_def quant_row_of_def both_normal_def
      is_normal_def getitem_def cell_at_def scipy_shapiro_def sample_shapiro_core_def
      scipy_corr_def constant_input_def all_equal_def round4_def fge_def fle_def)

text \<open>
  Claim C4 as stated fails. The column \<open>x\<close> of \<open>constant_example\<close> holds 5 in every
  row, so its correlation with \<open>y\<close> is not defined: scipy returns NaN, and the
  coefficient that \<^verbatim>\<open>get_quant_p_values\<close> reports for \<open>x\<close> is NaN, not a number
  in \<open>[-1, 1]\<close>.
\<close>

theorem quant_coefficient_counterexample:
  "getitem constant_example ''x'' = Inr [Num 5, Num 5, Num 5] \<and>
   getitem constant_example ''y'' = Inr [Num 1, Num 2, Num 4] \<and>
   map_sum id (map q_correlation)
     (get_quant_p_values (scipy_shapiro sample_shapiro_core) (scipy_corr sample_pearsonr)
        (scipy_corr sample_spearmanr) constant_example ''y'' (Some [''x''])) = Inr [None]"
  by (simp add: constant_example_quant) (simp add: constant_example_def getitem_def cell_at_def)

text \<open>
  Claim C4, amended. When \<^verbatim>\<open>get_quant_p_values\<close> returns its table, it has one row
  per examined factor, in order. In the row of a factor the method is \<^verbatim>\<open>Pearson\<close>
  exactly when the Shapiro-Wilk routine returns, for the factor column and for the target
  column each on its own, a p-value that is at least 0.05 (a NaN p-value is not), and
  \<^verbatim>\<open>Spearman\<close> otherwise. The reported coefficient is the coefficient of the routine
  of that method, rounded to four decimals: it lies in \<open>[-1, 1]\<close> whenever the
  routine's coefficient does, and it is NaN when the factor or the target column is
  constant, where scipy's routines return NaN.
\<close>

theorem quant_method_and_coefficient:
  assumes run: "get_quant_p_values shapiro (scipy_corr pearson_core) (scipy_corr spearman_core)
                  df target factors = Inr out"
    and examined: "examined = (case factors of
                                 None \<Rightarrow> filter (\<lambda>c. c \<noteq> target) (numeric_columns df)
                               | Some fs \<Rightarrow> fs)"
  shows "length out = length examined \<and>
         (\<forall>i < length examined.
            \<exists>fc tc c p.
              getitem df (examined ! i) = Inr fc \<and> getitem df target = Inr tc \<and>
              q_column (out ! i) = examined ! i \<and>
              (q_method (out ! i) = ''Pearson'' \<longleftrightarrow>
                 (\<exists>s v. shapiro fc = Inr (s, Some v) \<and> 5 / 100 \<le> v) \<and>
                 (\<exists>s v. shapiro tc = Inr (s, Some v) \<and> 5 / 100 \<le> v)) \<and>
              (q_method (out ! i) = ''Spearman'' \<longleftrightarrow>
                 \<not> ((\<exists>s v. shapiro fc = Inr (s, Some v) \<and> 5 / 100 \<le> v) \<and>
                    (\<exists>s v. shapiro tc = Inr (s, Some v) \<and> 5 / 100 \<le> v))) \<and>
              scipy_corr (if q_method (out ! i) = ''Pearson'' then pearson_core
                          else spearman_core) fc tc = Inr (c, p) \<and>
              q_correlation (out ! i) = round4 c \<and>
              (\<forall>v. c = Some v \<and> - 1 \<le> v \<and> v \<le> 1 \<longrightarrow>
                 (\<exists>w. q_correlation (out ! i) = Some w \<and> - 1 \<le> w \<and> w \<le> 1)) \<and>
              (constant_input fc tc \<longrightarrow> q_correlation (out ! i) = None))"
proof -
  let ?pe = "scipy_corr pearson_core" and ?sp = "scipy_corr spearman_core"
  from run examined have "quant_rows shapiro ?pe ?sp df target examined [] = Inr out"
    by (auto simp: get_quant_p_values_def split: option.splits if_splits)
  from quant_rows_Inr [OF this]
  have all: "list_all2 (\<lambda>f r. quant_row_of shapiro ?pe ?sp df target f = Inr r) examined out"
    by simp
  then have len: "length out = length examined"
    by (simp add: list_all2_lengthD)
  have "\<exists>fc tc c p.
              getitem df (examined ! i) = Inr fc \<and> getitem df target = Inr tc \<and>
              q_column (out ! i) = examined ! i \<and>
              (q_method (out ! i) = ''Pearson'' \<longleftrightarrow>
                 (\<exists>s v. shapiro fc = Inr (s, Some v) \<and> 5 / 100 \<le> v) \<and>
                 (\<exists>s v. shapiro tc = Inr (s, Some v) \<and> 5 / 100 \<le> v)) \<and>
              (q_method (out ! i) = ''Spearman'' \<longleftrightarrow>
                 \<not> ((\<exists>s v. shapiro fc = Inr (s, Some v) \<and> 5 / 100 \<le> v) \<and>
                    (\<exists>s v. shapiro tc = Inr (s, Some v) \<and> 5 / 100 \<le> v))) \<and>
              scipy_corr (if q_method (out ! i) = ''Pearson'' then pearson_core
                          else spearman_core) fc tc = Inr (c, p) \<and>
              q_correlation (out ! i) = round4 c \<and>
              (\<forall>v. c = Some v \<and> - 1 \<le> v \<and> v \<le> 1 \<longrightarrow>
                 (\<exists>w. q_correlation (out ! i) = Some w \<and> - 1 \<le> w \<and> w \<le> 1)) \<and>
              (constant_input fc tc \<longrightarrow> q_correlation (out ! i) = None)"
    if i: "i < length examined" for i
  proof -
    from list_all2_nthD [OF all i]
    have "quant_row_of shapiro ?pe ?sp df target (examined ! i) = Inr (out ! i)" .
    from quant_row_of_Inr [OF this] obtain fc tc normal c p where
      fc: "getitem df (examined ! i) = Inr fc" and tc: "getitem df target = Inr tc"
      and bn: "both_normal shapiro df (examined ! i) target = Inr normal"
      and corr: "(if normal then ?pe fc tc else ?sp fc tc) = Inr (c, p)"
      and col: "q_column (out ! i) = examined ! i"
      and meth: "q_method (out ! i) = (if normal then ''Pearson'' else ''Spearman'')"
      and rc: "q_correlation (out ! i) = round4 c"
      by blast
    have normal: "normal \<longleftrightarrow>
        (\<exists>s v. shapiro fc = Inr (s, Some v) \<and> 5 / 100 \<le> v) \<and>
        (\<exists>s v. shapiro tc = Inr (s, Some v) \<and> 5 / 100 \<le> v)"
      using both_normal_iff [OF fc tc bn] by (simp only: is_normal_True_iff)
    have pearson: "q_method (out ! i) = ''Pearson'' \<longleftrightarrow> normal"
      and spearman: "q_method (out ! i) = ''Spearman'' \<longleftrightarrow> \<not> normal"
      using meth by auto
    have call: "scipy_corr (if q_method (out ! i) = ''Pearson'' then pearson_core
                          else spearman_core) fc tc = Inr (c, p)"
      using corr pearson by (cases normal) simp_all
    have range: "\<exists>w. q_correlation (out ! i) = Some w \<and> - 1 \<le> w \<and> w \<le> 1"
      if "c = Some v" "- 1 \<le> v" "v \<le> 1" for v
      using round4_between [of c v "- 1" 1] that by (simp add: rc)
    have const: "q_correlation (out ! i) = None" if "constant_input fc tc"
    proof -
      from call that have "c = None" by (simp add: scipy_corr_def)
      then show ?thesis by (simp add: rc round4_def)
    qed
    show ?thesis
      apply (rule exI [of _ fc], rule exI [of _ tc], rule exI [of _ c], rule exI [of _ p])
      using fc tc col pearson spearman normal call rc range const by blast
  qed
  with len show ?thesis by blast
qed

lemma pair_example_quant:
  "get_quant_p_values sample_shapiro (scipy_corr sample_pearsonr) (scipy_corr sample_spearmanr)
       pair_example ''y'' (Some [''x'']) =
     Inr [\<lparr>q_column = ''x'', q_p_value = Some (1 / 100), q_correlation = Some (1235 / 10000),
           q_method = ''Pearson'', q_conclusion = Significant\<rparr>]"
  by (simp add: pair_example_def get_quant_p_values_def quant_row_of_def both_normal_def
      is_normal_def getitem_def cell_at_def sample_shapiro_def sample_pearsonr_def
      scipy_corr_def constant_input_def all_equal_def round4_def rint_def fge_def fle_def)

theorem quant_method_and_coefficient_witness:
  "get_quant_p_values sample_shapiro (scipy_corr sample_pearsonr) (scipy_corr sample_spearmanr)
       pair_example ''y'' (Some [''x'']) =
     Inr [\<lparr>q_column = ''x'', q_p_value = Some (1 / 100), q_correlation = Some (1235 / 10000),
           q_method = ''Pearson'', q_conclusion = Significant\<rparr>] \<and>
   length [\<lparr>q_column = ''x'', q_p_value = Some (1 / 100), q_correlation = Some (1235 / 10000),
           q_method = ''Pearson'', q_conclusion = Significant\<rparr>] = length [''x'']"
  using quant_method_and_coefficient [OF pair_example_quant, of "[''x'']"] pair_example_quant
  by simp

end
